theory Spec2Isabelle
  imports Complex_Main "HOL-Library.Multiset" "HOL-Library.Monad_Syntax" "HOL-Library.AList"
begin

section \<open>Numbers, errors and Python primitives\<close>

text \<open>
  The program computes with Python floats and unbounded integers. Integers are \<open>int\<close>.
  A float is modelled by the rational number it denotes (\<open>rat\<close>). In \<open>util.py\<close>,
  \<open>midi.py\<close>, \<open>audio.py\<close> and \<open>merging.py\<close> every float operation is taken without
  its rounding error: \<open>/\<close> is exact division, \<open>round(x, n)\<close> rounds half to even at
  \<open>n\<close> decimals. In \<open>beatmap.py\<close>, where a float remainder is compared with zero, every
  operation is rounded as in binary64 (see that section). Every \<open>raise\<close> of the source
  (and every exception of a builtin that the modelled code can hit) is a value \<open>Inl e\<close>
  of a sum type.
\<close>

datatype py_error = TypeError | ValueError | ZeroDivisionError | RuntimeError | KeyError

text \<open>\<open>int(x)\<close> on a float truncates toward zero.\<close>

definition py_int :: "rat \<Rightarrow> int" where
  "py_int x = (if 0 \<le> x then \<lfloor>x\<rfloor> else \<lceil>x\<rceil>)"

text \<open>Rounding half to even to an integer, and \<open>round(x, n)\<close> at \<open>n\<close> decimals.\<close>

definition round_half_even :: "rat \<Rightarrow> int" where
  "round_half_even x =
     (let f = \<lfloor>x\<rfloor>; d = x - of_int f
      in if d < 1 / 2 then f else if 1 / 2 < d then f + 1 else if even f then f else f + 1)"

definition py_round :: "rat \<Rightarrow> nat \<Rightarrow> rat" where
  "py_round x n = of_int (round_half_even (x * 10 ^ n)) / 10 ^ n"

section \<open>util.py: beats per measure\<close>

text \<open>
  \<open>beats_per_measure_from_time_signature\<close> reads a dict with the optional keys
  \<open>numerator\<close> and \<open>denominator\<close> (default 4 each), divides the denominator by 4 and
  truncates \<open>numerator / ratio\<close> with \<open>int\<close>. The only exception it can raise on
  integer entries is the division by a zero ratio.
\<close>

definition beats_per_measure_from_time_signature :: "(string \<rightharpoonup> int) \<Rightarrow> py_error + int" where
  "beats_per_measure_from_time_signature time_signature =
     (let numerator = (case time_signature ''numerator'' of Some n \<Rightarrow> n | None \<Rightarrow> 4);
          denominator = (case time_signature ''denominator'' of Some d \<Rightarrow> d | None \<Rightarrow> 4);
          ratio = (of_int denominator :: rat) / 4
      in if ratio = 0 then Inl ZeroDivisionError
         else Inr (py_int (of_int numerator / ratio)))"

section \<open>midi.py: ticks to time\<close>

text \<open>
  A tempo event is the dict \<open>{'time_ticks', 'tempo', 'track'}\<close> built by
  \<open>extract_tempo_changes\<close>.
\<close>

record tempo_event =
  ev_time_ticks :: int
  ev_tempo :: int
  ev_track :: nat

text \<open>
  \<open>mido.tick2second(tick, ticks_per_beat, tempo)\<close> of the mido library is
  \<open>tick * (tempo * 1e-6 / ticks_per_beat)\<close>; it raises on \<open>ticks_per_beat = 0\<close>.
  \<open>mido.tempo2bpm(tempo)\<close> is \<open>60 * 1e6 / tempo\<close> for the default 4/4.
\<close>

definition tick2second :: "int \<Rightarrow> int \<Rightarrow> rat \<Rightarrow> py_error + rat" where
  "tick2second tick ticks_per_beat tempo =
     (if ticks_per_beat = 0 then Inl ZeroDivisionError
      else Inr (of_int tick * (tempo * (1 / 1000000) / of_int ticks_per_beat)))"

definition tempo2bpm :: "rat \<Rightarrow> py_error + rat" where
  "tempo2bpm tempo = (if tempo = 0 then Inl ZeroDivisionError else Inr (60 * 1000000 / tempo))"

text \<open>
  \<open>current_time_seconds += mido.tick2second(ticks, ticks_per_beat, current_tempo)\<close>,
  guarded by \<open>ticks > 0\<close> as at each of its three uses.
\<close>

definition add_span :: "rat \<Rightarrow> int \<Rightarrow> int \<Rightarrow> int \<Rightarrow> py_error + rat" where
  "add_span current_time_seconds ticks ticks_per_beat current_tempo =
     (if ticks > 0 then
        (case tick2second ticks ticks_per_beat (of_int current_tempo) of
           Inl e \<Rightarrow> Inl e
         | Inr s \<Rightarrow> Inr (current_time_seconds + s))
      else Inr current_time_seconds)"

text \<open>
  The \<open>for ... else\<close> loop of \<open>calculate_time_from_ticks\<close>, with its state
  \<open>(current_time_seconds, current_tempo, last_tick_position)\<close>. The empty list is the
  \<open>else\<close> branch (the loop ended without \<open>break\<close>).
\<close>

fun ticks_loop :: "int \<Rightarrow> int \<Rightarrow> tempo_event list \<Rightarrow> rat \<Rightarrow> int \<Rightarrow> int \<Rightarrow> py_error + rat" where
  "ticks_loop target_ticks ticks_per_beat [] current_time_seconds current_tempo last_tick_position =
     add_span current_time_seconds (target_ticks - last_tick_position) ticks_per_beat current_tempo"
| "ticks_loop target_ticks ticks_per_beat (tempo_event # rest) current_time_seconds current_tempo
       last_tick_position =
     (let tempo_change_tick = ev_time_ticks tempo_event
      in if tempo_change_tick \<ge> target_ticks then
           add_span current_time_seconds (target_ticks - last_tick_position) ticks_per_beat
             current_tempo
         else
           (case add_span current_time_seconds (tempo_change_tick - last_tick_position)
                   ticks_per_beat current_tempo of
              Inl e \<Rightarrow> Inl e
            | Inr t \<Rightarrow>
                ticks_loop target_ticks ticks_per_beat rest t (ev_tempo tempo_event)
                  tempo_change_tick))"

definition calculate_time_from_ticks :: "int \<Rightarrow> int \<Rightarrow> tempo_event list \<Rightarrow> int \<Rightarrow> py_error + rat" where
  "calculate_time_from_ticks target_ticks ticks_per_beat tempo_events initial_tempo =
     (if target_ticks = 0 then Inr 0
      else ticks_loop target_ticks ticks_per_beat tempo_events 0 initial_tempo 0)"

section \<open>Python strings and number formatting\<close>

definition digit_char :: "int \<Rightarrow> char" where
  "digit_char d = ''0123456789'' ! nat d"

function str_nonneg :: "int \<Rightarrow> string" where
  "str_nonneg n =
     (if n < 10 then [digit_char n] else str_nonneg (n div 10) @ [digit_char (n mod 10)])"
  by pat_completeness auto
termination
  by (relation "measure nat") auto

declare str_nonneg.simps [simp del]

definition str_int :: "int \<Rightarrow> string" where
  "str_int i = (if i < 0 then CHR ''-'' # str_nonneg (- i) else str_nonneg i)"

definition zfill :: "string \<Rightarrow> nat \<Rightarrow> string" where
  "zfill s width =
     (case s of
        [] \<Rightarrow> replicate width (CHR ''0'')
      | c # cs \<Rightarrow>
          if c = CHR ''+'' \<or> c = CHR ''-''
          then c # replicate (width - length s) (CHR ''0'') @ cs
          else replicate (width - length s) (CHR ''0'') @ s)"

definition rstrip :: "string \<Rightarrow> string \<Rightarrow> string" where
  "rstrip chars s = rev (dropWhile (\<lambda>c. c \<in> set chars) (rev s))"

definition format_3f :: "rat \<Rightarrow> string" where
  "format_3f x =
     (let n = round_half_even (\<bar>x\<bar> * 1000)
      in (if x < 0 then ''-'' else []) @ str_nonneg (n div 1000) @ ''.''
           @ zfill (str_nonneg (n mod 1000)) 3)"

definition pow10 :: "int \<Rightarrow> rat" where
  "pow10 e = (if 0 \<le> e then 10 ^ nat e else 1 / 10 ^ nat (- e))"

fun lead_exp :: "nat \<Rightarrow> nat \<Rightarrow> rat \<Rightarrow> nat" where
  "lead_exp 0 k a = k"
| "lead_exp (Suc fuel) k a = (if 1 \<le> a * 10 ^ k then k else lead_exp fuel (Suc k) a)"

definition floor_log10 :: "rat \<Rightarrow> int" where
  "floor_log10 a =
     (if 1 \<le> a then int (length (str_nonneg \<lfloor>a\<rfloor>)) - 1
      else - int (lead_exp (nat (snd (quotient_of a))) 1 a))"

definition strip_fraction :: "string \<Rightarrow> string" where
  "strip_fraction s = (if CHR ''.'' \<in> set s then rstrip ''.'' (rstrip ''0'' s) else s)"

definition format_g :: "rat \<Rightarrow> string" where
  "format_g x =
     (if x = 0 then ''0''
      else
        let a = \<bar>x\<bar>;
            e0 = floor_log10 a;
            m0 = round_half_even (a * pow10 (5 - e0));
            m = (if m0 = 1000000 then 100000 else m0);
            e = (if m0 = 1000000 then e0 + 1 else e0);
            sign = (if x < 0 then ''-'' else [])
        in if e < - 4 \<or> 6 \<le> e then
             sign @ strip_fraction (take 1 (str_nonneg m) @ ''.'' @ drop 1 (str_nonneg m))
               @ ''e'' @ (if e < 0 then ''-'' else ''+'') @ zfill (str_nonneg \<bar>e\<bar>) 2
           else
             let prec = nat (5 - e)
             in sign @ strip_fraction
                  (str_nonneg (m div 10 ^ prec)
                     @ (if prec = 0 then [] else ''.'' @ zfill (str_nonneg (m mod 10 ^ prec)) prec)))"

section \<open>util.py: segment filenames\<close>

record time_sig =
  ts_numerator :: int
  ts_denominator :: int

datatype ts_entry = TsMissing | TsNone | TsDict time_sig

record segment =
  seg_start_ms :: rat
  seg_end_ms :: rat
  seg_duration_ms :: rat
  seg_bpm :: rat
  seg_tempo :: "rat option"
  seg_time_signature :: ts_entry

definition path_suffix :: "string \<Rightarrow> string" where
  "path_suffix name =
     (if CHR ''.'' \<in> set name then
        (let i = length name - 1 - length (takeWhile (\<lambda>c. c \<noteq> CHR ''.'') (rev name))
         in if 0 < i \<and> i < length name - 1 then drop i name else [])
      else [])"

definition path_stem :: "string \<Rightarrow> string" where
  "path_stem name = take (length name - length (path_suffix name)) name"

definition format_seconds :: "rat \<Rightarrow> string" where
  "format_seconds sec = rstrip ''.'' (rstrip ''0'' (format_3f sec))"

definition generate_segment_filename :: "string \<Rightarrow> int \<Rightarrow> int \<Rightarrow> segment \<Rightarrow> py_error + string" where
  "generate_segment_filename base_path index total_count segment =
     (let stem = path_stem base_path;
          suffix = path_suffix base_path;
          digits = length (str_int total_count);
          sequence_num = zfill (str_int (index + 1)) digits;
          bpm_str = format_g (seg_bpm segment);
          start_sec = seg_start_ms segment / 1000;
          end_sec = seg_end_ms segment / 1000;
          duration_sec = seg_duration_ms segment / 1000;
          start_str = format_seconds start_sec;
          end_str = format_seconds end_sec;
          duration_str = format_seconds duration_sec
      in case (case seg_time_signature segment of
                 TsMissing \<Rightarrow> Inr []
               | TsNone \<Rightarrow> Inl TypeError
               | TsDict ts \<Rightarrow>
                   Inr (''_TimeSignature'' @ str_int (ts_numerator ts) @ ''-''
                          @ str_int (ts_denominator ts))) of
           Inl e \<Rightarrow> Inl e
         | Inr time_sig_str \<Rightarrow>
             Inr (stem @ ''_'' @ sequence_num @ ''_BPM'' @ bpm_str @ time_sig_str @ ''_''
                    @ start_str @ ''s-'' @ end_str @ ''s_dur'' @ duration_str @ ''s_Segment''
                    @ suffix))"

section \<open>merging.py: parsing segment filenames\<close>

definition is_digit :: "char \<Rightarrow> bool" where
  "is_digit c = (c \<in> set ''0123456789'')"

definition lit :: "string \<Rightarrow> string \<Rightarrow> string option" where
  "lit l s = (if take (length l) s = l then Some (drop (length l) s) else None)"

definition digits1 :: "string \<Rightarrow> (string \<times> string) option" where
  "digits1 s = (if takeWhile is_digit s = [] then None
                else Some (takeWhile is_digit s, dropWhile is_digit s))"

definition number :: "string \<Rightarrow> (string \<times> string) option" where
  "number s =
     (case digits1 s of
        None \<Rightarrow> None
      | Some (ip, r) \<Rightarrow>
          (case r of
             [] \<Rightarrow> Some (ip, r)
           | c # r' \<Rightarrow>
               if c = CHR ''.'' then
                 (case digits1 r' of
                    None \<Rightarrow> Some (ip, r)
                  | Some (fp, r'') \<Rightarrow> Some (ip @ ''.'' @ fp, r''))
               else Some (ip, r)))"

definition match_times :: "string \<Rightarrow> (string \<times> string \<times> string \<times> string) option" where
  "match_times s =
     do {
       s1 \<leftarrow> lit ''_'' s;
       (g6, s2) \<leftarrow> number s1;
       s3 \<leftarrow> lit ''s-'' s2;
       (g7, s4) \<leftarrow> number s3;
       s5 \<leftarrow> lit ''s_dur'' s4;
       (g8, s6) \<leftarrow> number s5;
       s7 \<leftarrow> lit ''s_Segment.'' s6;
       (let g9 = takeWhile (\<lambda>c. c \<noteq> CHR 0x0A) s7
        in if g9 = [] then None else Some (g6, g7, g8, g9))
     }"

definition match_time_signature :: "string \<Rightarrow> (string \<times> string \<times> string) option" where
  "match_time_signature s =
     do {
       s1 \<leftarrow> lit ''_TimeSignature'' s;
       (g4, s2) \<leftarrow> digits1 s1;
       s3 \<leftarrow> lit ''-'' s2;
       (g5, s4) \<leftarrow> digits1 s3;
       Some (g4, g5, s4)
     }"

type_synonym tail_groups =
  "string \<times> string \<times> string option \<times> string option \<times> string \<times> string \<times> string \<times> string"

definition match_optional_time_signature ::
    "string \<Rightarrow> (string option \<times> string option \<times> string \<times> string \<times> string \<times> string) option" where
  "match_optional_time_signature s =
     (case do { (g4, g5, r) \<leftarrow> match_time_signature s;
                t \<leftarrow> match_times r;
                Some (Some g4, Some g5, t) } of
        Some m \<Rightarrow> Some m
      | None \<Rightarrow> do { t \<leftarrow> match_times s; Some (None, None, t) })"

definition match_tail :: "string \<Rightarrow> tail_groups option" where
  "match_tail s =
     do {
       s1 \<leftarrow> lit ''_'' s;
       (g2, s2) \<leftarrow> digits1 s1;
       s3 \<leftarrow> lit ''_BPM'' s2;
       (g3, s4) \<leftarrow> number s3;
       m \<leftarrow> match_optional_time_signature s4;
       Some (g2, g3, m)
     }"

fun match_base :: "string \<Rightarrow> string \<Rightarrow> (string \<times> tail_groups) option" where
  "match_base pre [] = None"
| "match_base pre (c # cs) =
     (if c = CHR 0x0A then None
      else (case match_tail cs of
              Some m \<Rightarrow> Some (pre @ [c], m)
            | None \<Rightarrow> match_base (pre @ [c]) cs))"

definition re_match :: "string \<Rightarrow> (string \<times> tail_groups) option" where
  "re_match filename = match_base [] filename"

definition digit_val :: "char \<Rightarrow> int" where
  "digit_val c = of_char c - 48"

definition int_of_digits :: "string \<Rightarrow> int" where
  "int_of_digits s = foldl (\<lambda>a c. 10 * a + digit_val c) 0 s"

definition float_of_string :: "string \<Rightarrow> rat" where
  "float_of_string s =
     (let ip = takeWhile (\<lambda>c. c \<noteq> CHR ''.'') s;
          fp = drop 1 (dropWhile (\<lambda>c. c \<noteq> CHR ''.'') s)
      in of_int (int_of_digits ip) + of_int (int_of_digits fp) / 10 ^ length fp)"

record filename_info =
  fi_base_name :: string
  fi_segment_number :: int
  fi_bpm :: rat
  fi_time_signature :: time_sig
  fi_start_time :: rat
  fi_end_time :: rat
  fi_duration :: rat
  fi_file_extension :: string

definition parse_segment_filename :: "string \<Rightarrow> py_error + filename_info" where
  "parse_segment_filename filename =
     (case re_match filename of
        None \<Rightarrow> Inl ValueError
      | Some (g1, g2, g3, g4, g5, g6, g7, g8, g9) \<Rightarrow>
          (case g4 of
             None \<Rightarrow> Inl TypeError
           | Some n \<Rightarrow>
               (case g5 of
                  None \<Rightarrow> Inl TypeError
                | Some d \<Rightarrow>
                    Inr \<lparr>fi_base_name = g1,
                         fi_segment_number = int_of_digits g2,
                         fi_bpm = float_of_string g3,
                         fi_time_signature =
                           \<lparr>ts_numerator = int_of_digits n, ts_denominator = int_of_digits d\<rparr>,
                         fi_start_time = float_of_string g6,
                         fi_end_time = float_of_string g7,
                         fi_duration = float_of_string g8,
                         fi_file_extension = g9\<rparr>)))"

section \<open>audio.py: tempo segments\<close>

text \<open>
  The change map is the dict \<open>time_changes\<close>: keys are millisecond offsets, each value a
  dict with the optional entries \<open>'tempo'\<close> (a dict of \<open>time_ms\<close>, \<open>bpm\<close>, \<open>tempo\<close>) and
  \<open>'time_signature'\<close>. It is kept as an association list in insertion order; a Python
  dict has each key once.
\<close>

record tempo_entry =
  te_time_ms :: rat
  te_bpm :: rat
  te_tempo :: rat

record events =
  ev_tempo_entry :: "tempo_entry option"
  ev_time_signature :: "time_sig option"

type_synonym change_map = "(rat \<times> events) list"

text \<open>
  The loop of \<open>create_tempo_segments\<close> over the sorted keys, with the carried state
  \<open>(last_bpm, last_tempo, last_time_signature)\<close>. The \<open>log.info\<close> call at the end of
  each iteration formats \<open>segment['time_signature']['numerator']\<close>; when no time signature
  has been seen yet that value is \<open>None\<close> and the subscript raises \<open>TypeError\<close>, which
  nothing in the function catches.
\<close>

fun segments_loop ::
    "change_map \<Rightarrow> rat \<Rightarrow> rat list \<Rightarrow> rat \<Rightarrow> rat option \<Rightarrow> time_sig option
       \<Rightarrow> py_error + segment list" where
  "segments_loop tempo_and_time_changes audio_duration_ms [] last_bpm last_tempo
       last_time_signature = Inr []"
| "segments_loop tempo_and_time_changes audio_duration_ms (start_time # keys) last_bpm last_tempo
       last_time_signature =
     (case map_of tempo_and_time_changes start_time of
        None \<Rightarrow> Inl KeyError
      | Some events \<Rightarrow>
          (let end_time = (case keys of [] \<Rightarrow> audio_duration_ms | k # _ \<Rightarrow> k);
               duration = end_time - start_time;
               bpm = (case ev_tempo_entry events of Some t \<Rightarrow> te_bpm t | None \<Rightarrow> last_bpm);
               tempo = (case ev_tempo_entry events of
                          Some t \<Rightarrow> Some (te_tempo t)
                        | None \<Rightarrow> last_tempo);
               time_signature = (case ev_time_signature events of
                                   Some s \<Rightarrow> Some s
                                 | None \<Rightarrow> last_time_signature)
           in case time_signature of
                None \<Rightarrow> Inl TypeError
              | Some s \<Rightarrow>
                  (case segments_loop tempo_and_time_changes audio_duration_ms keys bpm tempo
                          time_signature of
                     Inl e \<Rightarrow> Inl e
                   | Inr rest \<Rightarrow>
                       Inr (\<lparr>seg_start_ms = start_time, seg_end_ms = end_time,
                             seg_duration_ms = duration, seg_bpm = bpm, seg_tempo = tempo,
                             seg_time_signature = TsDict s\<rparr> # rest))))"

definition create_tempo_segments :: "change_map \<Rightarrow> rat \<Rightarrow> rat \<Rightarrow> py_error + segment list" where
  "create_tempo_segments tempo_and_time_changes audio_duration_ms initial_bpm =
     segments_loop tempo_and_time_changes audio_duration_ms
       (sort (map fst tempo_and_time_changes)) initial_bpm None None"

section \<open>midi.py: the change map\<close>

text \<open>
  A parsed MIDI file as mido presents it: ticks per beat and tracks of messages, each with
  its delta time in ticks. Only \<open>set_tempo\<close> and \<open>time_signature\<close> messages are read;
  of the latter only numerator and denominator reach the change map.
\<close>

datatype message = SetTempo int | TimeSignature int int | OtherMessage

record midi_msg =
  msg_time :: int
  msg_body :: message

record midi_file =
  ticks_per_beat :: int
  tracks :: "midi_msg list list"

fun track_tempo_events :: "nat \<Rightarrow> int \<Rightarrow> midi_msg list \<Rightarrow> tempo_event list" where
  "track_tempo_events track_idx current_time_ticks [] = []"
| "track_tempo_events track_idx current_time_ticks (msg # rest) =
     (case msg_body msg of
        SetTempo tempo \<Rightarrow>
          \<lparr>ev_time_ticks = current_time_ticks + msg_time msg, ev_tempo = tempo,
           ev_track = track_idx\<rparr>
            # track_tempo_events track_idx (current_time_ticks + msg_time msg) rest
      | _ \<Rightarrow> track_tempo_events track_idx (current_time_ticks + msg_time msg) rest)"

definition extract_tempo_changes :: "midi_file \<Rightarrow> tempo_event list" where
  "extract_tempo_changes midi =
     sort_key ev_time_ticks
       (concat (map (\<lambda>(track_idx, track). track_tempo_events track_idx 0 track)
                  (enumerate 0 (tracks midi))))"

record time_sig_change =
  tsc_numerator :: int
  tsc_denominator :: int
  tsc_time_ticks :: int
  tsc_time_ms :: rat
  tsc_track :: nat

fun track_time_signatures ::
    "int \<Rightarrow> tempo_event list \<Rightarrow> int \<Rightarrow> nat \<Rightarrow> int \<Rightarrow> midi_msg list
       \<Rightarrow> py_error + time_sig_change list" where
  "track_time_signatures tpb tempo_events initial_tempo track_num track_time [] = Inr []"
| "track_time_signatures tpb tempo_events initial_tempo track_num track_time (msg # rest) =
     (case msg_body msg of
        TimeSignature n d \<Rightarrow>
          (case calculate_time_from_ticks (track_time + msg_time msg) tpb tempo_events
                  initial_tempo of
             Inl e \<Rightarrow> Inl e
           | Inr absolute_time \<Rightarrow>
               (case track_time_signatures tpb tempo_events initial_tempo track_num
                       (track_time + msg_time msg) rest of
                  Inl e \<Rightarrow> Inl e
                | Inr others \<Rightarrow>
                    Inr (\<lparr>tsc_numerator = n, tsc_denominator = d,
                          tsc_time_ticks = track_time + msg_time msg,
                          tsc_time_ms = absolute_time * 1000, tsc_track = track_num\<rparr> # others)))
      | _ \<Rightarrow>
          track_time_signatures tpb tempo_events initial_tempo track_num
            (track_time + msg_time msg) rest)"

fun tracks_time_signatures ::
    "int \<Rightarrow> tempo_event list \<Rightarrow> int \<Rightarrow> nat \<Rightarrow> midi_msg list list
       \<Rightarrow> py_error + time_sig_change list" where
  "tracks_time_signatures tpb tempo_events initial_tempo track_num [] = Inr []"
| "tracks_time_signatures tpb tempo_events initial_tempo track_num (track # rest) =
     (case track_time_signatures tpb tempo_events initial_tempo track_num 0 track of
        Inl e \<Rightarrow> Inl e
      | Inr here \<Rightarrow>
          (case tracks_time_signatures tpb tempo_events initial_tempo (Suc track_num) rest of
             Inl e \<Rightarrow> Inl e
           | Inr others \<Rightarrow> Inr (here @ others)))"

definition extract_time_signature_changes ::
    "midi_file \<Rightarrow> tempo_event list \<Rightarrow> int \<Rightarrow> py_error + time_sig_change list" where
  "extract_time_signature_changes midi tempo_events initial_tempo =
     (case tracks_time_signatures (ticks_per_beat midi) tempo_events initial_tempo 0
             (tracks midi) of
        Inl e \<Rightarrow> Inl e
      | Inr time_sig_changes \<Rightarrow> Inr (sort_key tsc_time_ms time_sig_changes))"

text \<open>
  \<open>if key not in time_changes: time_changes[key] = {}\<close> followed by the assignment of
  one entry of \<open>time_changes[key]\<close>.
\<close>

definition events_at :: "change_map \<Rightarrow> rat \<Rightarrow> events" where
  "events_at time_changes key =
     (case map_of time_changes key of
        None \<Rightarrow> \<lparr>ev_tempo_entry = None, ev_time_signature = None\<rparr>
      | Some e \<Rightarrow> e)"

definition set_tempo_entry :: "change_map \<Rightarrow> rat \<Rightarrow> tempo_entry \<Rightarrow> change_map" where
  "set_tempo_entry time_changes key t =
     AList.update key ((events_at time_changes key)\<lparr>ev_tempo_entry := Some t\<rparr>) time_changes"

definition set_time_signature :: "change_map \<Rightarrow> rat \<Rightarrow> time_sig \<Rightarrow> change_map" where
  "set_time_signature time_changes key s =
     AList.update key ((events_at time_changes key)\<lparr>ev_time_signature := Some s\<rparr>) time_changes"

text \<open>
  The loop over the sorted tempo events, with the state \<open>(time_changes, current_time_ms,
  current_tempo, last_time_ticks)\<close>; it returns the map and the last \<open>current_tempo\<close>.
\<close>

fun tempo_loop ::
    "int \<Rightarrow> tempo_event list \<Rightarrow> change_map \<Rightarrow> rat \<Rightarrow> rat \<Rightarrow> int
       \<Rightarrow> py_error + (change_map \<times> rat)" where
  "tempo_loop tpb [] time_changes current_time_ms current_tempo last_time_ticks =
     Inr (time_changes, current_tempo)"
| "tempo_loop tpb (event # rest) time_changes current_time_ms current_tempo last_time_ticks =
     (case (if ev_time_ticks event > last_time_ticks then
              (case tick2second (ev_time_ticks event - last_time_ticks) tpb current_tempo of
                 Inl e \<Rightarrow> Inl e
               | Inr s \<Rightarrow> Inr (current_time_ms + s * 1000))
            else Inr current_time_ms) of
        Inl e \<Rightarrow> Inl e
      | Inr ms \<Rightarrow>
          if current_tempo \<noteq> of_int (ev_tempo event) then
            (case tempo2bpm (of_int (ev_tempo event)) of
               Inl e \<Rightarrow> Inl e
             | Inr bpm \<Rightarrow>
                 tempo_loop tpb rest
                   (set_tempo_entry time_changes (py_round ms 3)
                      \<lparr>te_time_ms = ms, te_bpm = py_round bpm 2,
                       te_tempo = of_int (ev_tempo event)\<rparr>)
                   ms (of_int (ev_tempo event)) (ev_time_ticks event))
          else tempo_loop tpb rest time_changes ms current_tempo (ev_time_ticks event))"

text \<open>
  \<open>extract_tempo_and_time_signature_changes\<close>. Any exception inside its \<open>try\<close> block is
  logged and the function returns the empty list: that outcome is \<open>Inl\<close> here.
\<close>

definition extract_tempo_and_time_signature_changes :: "midi_file \<Rightarrow> rat \<Rightarrow> py_error + change_map" where
  "extract_tempo_and_time_signature_changes midi bpm =
     (let all_tempo_events = extract_tempo_changes midi
      in if bpm = 0 then Inl ZeroDivisionError
         else
           (let current_tempo = 60000000 / bpm
            in case (if (case all_tempo_events of [] \<Rightarrow> True | e # _ \<Rightarrow> ev_time_ticks e > 0)
                     then (case tempo2bpm current_tempo of
                             Inl e \<Rightarrow> Inl e
                           | Inr b \<Rightarrow>
                               Inr [(0, \<lparr>ev_tempo_entry =
                                            Some \<lparr>te_time_ms = 0, te_bpm = py_round b 2,
                                                  te_tempo = current_tempo\<rparr>,
                                          ev_time_signature = None\<rparr>)])
                     else Inr []) of
                 Inl e \<Rightarrow> Inl e
               | Inr time_changes \<Rightarrow>
                   (case tempo_loop (ticks_per_beat midi) all_tempo_events time_changes 0
                           current_tempo 0 of
                      Inl e \<Rightarrow> Inl e
                    | Inr (time_changes', final_tempo) \<Rightarrow>
                        (case extract_time_signature_changes midi all_tempo_events
                                (py_int final_tempo) of
                           Inl e \<Rightarrow> Inl e
                         | Inr time_sig_changes \<Rightarrow>
                             Inr (foldl (\<lambda>tc c.
                                           set_time_signature tc (py_round (tsc_time_ms c) 3)
                                             \<lparr>ts_numerator = tsc_numerator c,
                                              ts_denominator = tsc_denominator c\<rparr>)
                                    time_changes' time_sig_changes)))))"

section \<open>beatmap.py: materializing a segment\<close>

subsection \<open>Binary64 arithmetic\<close>

text \<open>
  The materializer tests a float remainder for zero, so its arithmetic is modelled with
  the rounding of IEEE 754 binary64. A float is the rational number it denotes, and every
  float operation returns the exact result rounded to 53 significant bits, ties to even:
  that is \<open>fl\<close>. The exponent range is not bounded, so overflow, underflow and
  subnormal numbers are outside the model, and so are infinities and NaN.

  \<open>bit_length n\<close> is \<open>n.bit_length()\<close> of a positive integer; \<open>floor_log2 a\<close> is the
  \<open>k\<close> with \<open>2 ^ k \<le> a < 2 ^ (k + 1)\<close> for a positive rational \<open>a\<close>.
\<close>

function bit_length :: "int \<Rightarrow> nat" where
  "bit_length n = (if n \<le> 0 then 0 else Suc (bit_length (n div 2)))"
  by pat_completeness auto
termination
  by (relation "measure nat") auto

declare bit_length.simps [simp del]

definition floor_log2 :: "rat \<Rightarrow> int" where
  "floor_log2 a =
     (let p = fst (quotient_of a);
          q = snd (quotient_of a);
          k = int (bit_length p) - int (bit_length q)
      in if power_int 2 k \<le> a then k else k - 1)"

definition fl :: "rat \<Rightarrow> rat" where
  "fl x =
     (if x = 0 then 0
      else (let e = floor_log2 \<bar>x\<bar> - 52
            in of_int (round_half_even (x / power_int 2 e)) * power_int 2 e))"

text \<open>
  Float \<open>x % y\<close> (CPython \<open>float_rem\<close>): the exact C \<open>fmod\<close>, with the sign of \<open>x\<close>,
  to which \<open>y\<close> is added when its sign differs from that of \<open>y\<close>; a zero divisor raises.
\<close>

definition float_mod :: "rat \<Rightarrow> rat \<Rightarrow> rat" where
  "float_mod x y =
     (let r = x - y * of_int (py_int (x / y))
      in if r \<noteq> 0 \<and> ((y < 0) \<noteq> (r < 0)) then fl (r + y) else r)"

definition py_fmod :: "rat \<Rightarrow> rat \<Rightarrow> py_error + rat" where
  "py_fmod x y = (if y = 0 then Inl ZeroDivisionError else Inr (float_mod x y))"

text \<open>
  Float \<open>x // y\<close> (CPython \<open>float_floor_div\<close>): the quotient \<open>(x - fmod(x, y)) / y\<close>,
  less one when the remainder was adjusted, snapped to the nearest integer.
\<close>

definition py_floordiv :: "rat \<Rightarrow> rat \<Rightarrow> py_error + rat" where
  "py_floordiv x y =
     (if y = 0 then Inl ZeroDivisionError
      else (let r = x - y * of_int (py_int (x / y));
                div0 = fl (fl (x - r) / y);
                div1 = (if r \<noteq> 0 \<and> ((y < 0) \<noteq> (r < 0)) then fl (div0 - 1) else div0);
                floordiv = (of_int \<lfloor>div1\<rfloor> :: rat)
            in Inr (if div1 = 0 then 0
                    else if 1 / 2 < fl (div1 - floordiv) then fl (floordiv + 1)
                    else floordiv)))"

subsection \<open>The materializer\<close>

text \<open>
  \<open>synth_mapping_helper.utils.second_to_beat(second, bpm)\<close> is \<open>second * bpm / 60\<close>, and
  after \<open>change_bpm(bpm)\<close> the copy's \<open>bpm\<close> attribute is \<open>bpm\<close>. The boolean
  \<open>success\<close> is what \<open>segment_beatmap_audio\<close> returned. The result collects what the
  function passes to \<open>change_offset\<close> and \<open>add_timing_notes\<close>. Every exception is caught
  by the function's \<open>try\<close> block and turned into the return value \<open>False\<close>: that is
  \<open>Inl\<close> here. The calls into the beatmap object (\<open>copy.deepcopy\<close>, \<open>change_bpm\<close>,
  \<open>change_offset\<close>, \<open>save_as\<close>) and the note generation inside \<open>add_timing_notes\<close>
  are taken to return normally. The fields of the segment are the floats they denote;
  an operation between two integers that are exact in binary64 is written like the float
  operation, which has the same value.
\<close>

definition second_to_beat :: "rat \<Rightarrow> rat \<Rightarrow> rat" where
  "second_to_beat second bpm = fl (fl (second * bpm) / 60)"

record materialized =
  m_total_offset :: rat
  m_beats_per_measure :: int
  m_note_value :: rat
  m_start_beat :: int
  m_end_beat :: int

definition create_tempo_segment_with_audio :: "bool \<Rightarrow> segment \<Rightarrow> py_error + materialized" where
  "create_tempo_segment_with_audio success segment =
     (let bpm = seg_bpm segment;
          start_time = seg_start_ms segment;
          end_time = seg_end_ms segment
      in if bpm = 0 then Inl ZeroDivisionError
         else
           (let seconds_per_beat = fl (60 / bpm)
            in case seg_time_signature segment of
                 TsMissing \<Rightarrow> Inl KeyError
               | TsNone \<Rightarrow> Inl TypeError
               | TsDict ts \<Rightarrow>
                   (case beats_per_measure_from_time_signature
                           [''numerator'' \<mapsto> ts_numerator ts,
                            ''denominator'' \<mapsto> ts_denominator ts] of
                      Inl e \<Rightarrow> Inl e
                    | Inr beats_per_measure \<Rightarrow>
                        (let note_value = fl (of_int (ts_denominator ts) / 4);
                             seconds_per_measure =
                               fl (seconds_per_beat * fl (of_int beats_per_measure))
                         in case py_fmod 2 seconds_per_measure of
                              Inl e \<Rightarrow> Inl e
                            | Inr remainder \<Rightarrow>
                                (let time_to_next_1 =
                                       (if remainder = 0 then 0
                                        else fl (seconds_per_measure - remainder));
                                     total_offset =
                                       (if start_time = 0 then 0
                                        else fl (fl (2 + time_to_next_1) * 1000));
                                     segment_length = fl (end_time - start_time);
                                     min_delay_beats = second_to_beat 2 bpm
                                 in case py_floordiv min_delay_beats
                                           (fl (of_int beats_per_measure)) of
                                      Inl e \<Rightarrow> Inl e
                                    | Inr measures_in_delay \<Rightarrow>
                                        (let first_measure_after_delay =
                                               py_int measures_in_delay + 1;
                                             start_beat =
                                               first_measure_after_delay * beats_per_measure;
                                             total_beats0 =
                                               \<lceil>fl (of_int \<lfloor>second_to_beat
                                                               (fl (segment_length / 1000)) bpm\<rfloor>
                                                     / of_int beats_per_measure)\<rceil>
                                                * beats_per_measure;
                                             total_beats =
                                               (if total_beats0 < beats_per_measure
                                                then beats_per_measure
                                                else total_beats0);
                                             end_beat0 =
                                               (total_beats div beats_per_measure)
                                                * beats_per_measure;
                                             end_beat =
                                               (if start_time \<noteq> 0 then end_beat0 + start_beat
                                                else end_beat0)
                                         in if \<not> success then Inl RuntimeError
                                            else Inr \<lparr>m_total_offset = total_offset,
                                                      m_beats_per_measure = beats_per_measure,
                                                      m_note_value = note_value,
                                                      m_start_beat = start_beat,
                                                      m_end_beat = end_beat\<rparr>))))))"



text \<open>
  The end beat in the words of the specification: the duration in beats rounded down to
  whole measures, at least one measure, shifted by \<open>start_beat\<close> for a later segment.
\<close>

definition end_beat_spec :: "rat \<Rightarrow> int \<Rightarrow> rat \<Rightarrow> rat \<Rightarrow> int \<Rightarrow> int" where
  "end_beat_spec bpm beats_per_measure start_ms end_ms start_beat =
     (let beats = second_to_beat ((end_ms - start_ms) / 1000) bpm;
          whole = \<lfloor>beats / of_int beats_per_measure\<rfloor> * beats_per_measure;
          at_least_one = max beats_per_measure whole
      in if start_ms \<noteq> 0 then at_least_one + start_beat else at_least_one)"

section \<open>merging.py: merging segments\<close>

text \<open>
  The \<open>SynthFile\<close> objects belong to the synth_mapping_helper library. The merger reads
  two things from a segment file: the text of its \<open>bpm\<close> attribute (\<open>bpm_str\<close>) and the
  note positions of its Expert difficulty after \<open>offset_everything(delta_s=start_time)\<close>
  (\<open>expert_positions\<close>). Both are parameters. \<open>expert_positions\<close> is \<open>None\<close> for a file
  without a difficulty named Expert: there the unguarded subscript
  \<open>segment_copy.difficulties["Expert"]\<close> raises \<open>KeyError\<close>, which ends the merge. The
  result lists, in the order of the calls of \<open>merged_file.merge\<close>, what is merged: the
  decoded filename, the file, and the bookmark set at the first note.
\<close>

record 'sf merged_segment =
  ms_info :: filename_info
  ms_file :: 'sf
  ms_first :: rat
  ms_bookmark :: string

fun load_segments :: "(string \<times> 'sf) list \<Rightarrow> py_error + (filename_info \<times> 'sf) list" where
  "load_segments [] = Inr []"
| "load_segments ((name, synth_file) # rest) =
     (case parse_segment_filename name of
        Inl e \<Rightarrow> Inl e
      | Inr filename_info \<Rightarrow>
          (case load_segments rest of
             Inl e \<Rightarrow> Inl e
           | Inr segment_data \<Rightarrow> Inr ((filename_info, synth_file) # segment_data)))"

text \<open>The body of the loop \<open>for i, (info, segment_file) in enumerate(segment_data, 1)\<close>.\<close>

definition process_segment ::
    "('sf \<Rightarrow> string) \<Rightarrow> (rat \<Rightarrow> 'sf \<Rightarrow> rat list option) \<Rightarrow> filename_info \<times> 'sf
       \<Rightarrow> py_error + 'sf merged_segment" where
  "process_segment bpm_str expert_positions x =
     (let info = fst x;
          segment_file = snd x;
          beats_per_measure = ts_numerator (fi_time_signature info)
      in case expert_positions (fi_start_time info) segment_file of
           None \<Rightarrow> Inl KeyError
         | Some all_note_positions \<Rightarrow>
             (let first = (case all_note_positions of [] \<Rightarrow> 0 | p # ps \<Rightarrow> fold min ps p)
              in Inr \<lparr>ms_info = info, ms_file = segment_file, ms_first = first,
                      ms_bookmark = bpm_str segment_file @ '' BPM || Time Signature ''
                                      @ str_int beats_per_measure @ ''/'' @ str_int 4\<rparr>))"

text \<open>The loop itself: an exception in one iteration ends the merge.\<close>

fun merge_loop ::
    "('sf \<Rightarrow> string) \<Rightarrow> (rat \<Rightarrow> 'sf \<Rightarrow> rat list option) \<Rightarrow> (filename_info \<times> 'sf) list
       \<Rightarrow> py_error + 'sf merged_segment list" where
  "merge_loop bpm_str expert_positions [] = Inr []"
| "merge_loop bpm_str expert_positions (x # rest) =
     (case process_segment bpm_str expert_positions x of
        Inl e \<Rightarrow> Inl e
      | Inr m \<Rightarrow>
          (case merge_loop bpm_str expert_positions rest of
             Inl e \<Rightarrow> Inl e
           | Inr ms \<Rightarrow> Inr (m # ms)))"

definition merge_synth_segments ::
    "('sf \<Rightarrow> string) \<Rightarrow> (rat \<Rightarrow> 'sf \<Rightarrow> rat list option) \<Rightarrow> (string \<times> 'sf) list
       \<Rightarrow> py_error + 'sf merged_segment list" where
  "merge_synth_segments bpm_str expert_positions segments =
     (case load_segments segments of
        Inl e \<Rightarrow> Inl e
      | Inr segment_data \<Rightarrow>
          (let sorted_data = sort_key (\<lambda>x. fi_start_time (fst x)) segment_data
           in if sorted_data = [] then Inl ValueError
              else merge_loop bpm_str expert_positions sorted_data))"

section \<open>Results\<close>

subsection \<open>Beats per measure\<close>

lemma py_int_of_int: "py_int (of_int k) = k"
  by (simp add: py_int_def)

lemma py_int_abs_le: "\<bar>of_int (py_int x)\<bar> \<le> \<bar>x\<bar>"
proof (cases "0 \<le> x")
  case True
  then have "0 \<le> \<lfloor>x\<rfloor>" by simp
  moreover have "of_int \<lfloor>x\<rfloor> \<le> x" by simp
  ultimately show ?thesis using True by (simp add: py_int_def)
next
  case False
  then have "\<lceil>x\<rceil> \<le> 0" by (simp add: ceiling_le_iff)
  moreover have "x \<le> of_int \<lceil>x\<rceil>" by simp
  ultimately show ?thesis using False by (simp add: py_int_def)
qed

lemma py_int_close: "\<bar>x - of_int (py_int x)\<bar> < 1"
proof (cases "0 \<le> x")
  case True
  have "of_int \<lfloor>x\<rfloor> \<le> x" "x < of_int \<lfloor>x\<rfloor> + 1" by linarith+
  then show ?thesis using True by (simp add: py_int_def abs_less_iff)
next
  case False
  have "x \<le> of_int \<lceil>x\<rceil>" "of_int \<lceil>x\<rceil> < x + 1" by linarith+
  then show ?thesis using False by (simp add: py_int_def abs_less_iff)
qed

text \<open>
  C9, as the code has it. For a time signature with a non-zero denominator the function
  always returns a value \<open>q\<close>: the quotient \<open>numerator / (denominator / 4)\<close> itself when
  that is an integer, and otherwise the quotient truncated toward zero (no error is
  raised for a fractional quotient).
\<close>

theorem beats_per_measure_truncates:
  assumes "d \<noteq> 0"
  shows "\<exists>q. beats_per_measure_from_time_signature [''numerator'' \<mapsto> n, ''denominator'' \<mapsto> d] = Inr q
           \<and> (d dvd 4 * n \<longrightarrow> (of_int q :: rat) = of_int n / (of_int d / 4))
           \<and> \<bar>of_int q :: rat\<bar> \<le> \<bar>of_int n / (of_int d / 4)\<bar>
           \<and> \<bar>of_int n / (of_int d / 4) - (of_int q :: rat)\<bar> < 1"
proof -
  let ?x = "(of_int n :: rat) / (of_int d / 4)"
  have res: "beats_per_measure_from_time_signature [''numerator'' \<mapsto> n, ''denominator'' \<mapsto> d]
               = Inr (py_int ?x)"
    using assms by (simp add: beats_per_measure_from_time_signature_def)
  have exact: "(of_int (py_int ?x) :: rat) = ?x" if "d dvd 4 * n"
  proof -
    from that obtain k where k: "4 * n = d * k" by (auto simp: dvd_def)
    have "?x = of_int (4 * n) / of_int d" by simp
    also have "\<dots> = of_int k" using assms by (simp add: k)
    finally have "?x = of_int k" .
    then show ?thesis by (simp add: py_int_of_int)
  qed
  show ?thesis
    using res exact py_int_abs_le [of ?x] py_int_close [of ?x] by blast
qed

theorem beats_per_measure_truncates_witness:
  "(8::int) \<noteq> 0 \<and> (8::int) dvd 4 * 6
   \<and> beats_per_measure_from_time_signature [''numerator'' \<mapsto> 6, ''denominator'' \<mapsto> 8] = Inr 3"
proof -
  have h: "(8::int) \<noteq> 0" by simp
  have d: "(8::int) dvd 4 * 6" by simp
  from beats_per_measure_truncates [OF h, of 6] obtain q where
    q: "beats_per_measure_from_time_signature [''numerator'' \<mapsto> 6, ''denominator'' \<mapsto> 8] = Inr q"
    and e: "(8::int) dvd 4 * 6 \<longrightarrow> (of_int q :: rat) = of_int 6 / (of_int 8 / 4)"
    by blast
  from e d have "(of_int q :: rat) = of_int 3" by simp
  then have "q = 3" by (simp only: of_int_eq_iff)
  with q h d show ?thesis by simp
qed

text \<open>
  C9, as stated, fails on the code: the time signature 7/8 has the fractional quotient
  \<open>7 / (8 / 4) = 3.5\<close>, and the function returns 3 instead of failing.
\<close>

theorem beats_per_measure_fractional_counterexample:
  "beats_per_measure_from_time_signature [''numerator'' \<mapsto> 7, ''denominator'' \<mapsto> 8] = Inr 3
   \<and> (7::rat) / (8 / 4) \<noteq> 3"
  by code_simp

subsection \<open>Ticks to time without tempo changes\<close>

text \<open>
  C4, as the code has it. With no tempo events, a tick position \<open>t \<ge> 0\<close> and
  \<open>ppb > 0\<close> ticks per beat, the converter returns \<open>t * T0 / ppb / 1000000\<close>: the
  elapsed time in seconds, linear in \<open>t\<close>.
\<close>

theorem calculate_time_from_ticks_linear_seconds:
  assumes "0 \<le> t" and "0 < ppb"
  shows "calculate_time_from_ticks t ppb [] T0 = Inr (of_int t * of_int T0 / of_int ppb / 1000000)"
  using assms by (simp add: calculate_time_from_ticks_def add_span_def tick2second_def)

theorem calculate_time_from_ticks_linear_seconds_witness:
  "(0::int) \<le> 480 \<and> (0::int) < 480 \<and> calculate_time_from_ticks 480 480 [] 500000 = Inr (1 / 2)"
proof -
  have a: "(0::int) \<le> 480" and b: "(0::int) < 480" by simp_all
  show ?thesis using calculate_time_from_ticks_linear_seconds [OF a b, of 500000] by simp
qed

text \<open>
  C4, as stated, fails on the code: one beat (480 ticks at 480 ticks per beat) at
  500000 microseconds per beat is returned as 1/2 (seconds), not as
  \<open>480 * 500000 / 480 / 1000 = 500\<close>.
\<close>

theorem calculate_time_from_ticks_milliseconds_counterexample:
  "calculate_time_from_ticks 480 480 [] 500000 \<noteq> Inr (480 * 500000 / 480 / 1000)"
  by (simp add: calculate_time_from_ticks_def add_span_def tick2second_def)

subsection \<open>The filename codec\<close>

text \<open>
  C2. For the base name \<open>TheCrowing\<close> with extension \<open>.synth\<close>, segment index 0 of 10,
  BPM 170.0, time signature 4/4, start 0 ms, end and duration 228706 ms (228.706 s), the
  encoder returns exactly
  \<open>TheCrowing_01_BPM170_TimeSignature4-4_0s-228.706s_dur228.706s_Segment.synth\<close>.
\<close>

theorem generate_segment_filename_TheCrowing:
  "generate_segment_filename ''TheCrowing.synth'' 0 10
     \<lparr>seg_start_ms = 0, seg_end_ms = 228706, seg_duration_ms = 228706, seg_bpm = 170,
      seg_tempo = None,
      seg_time_signature = TsDict \<lparr>ts_numerator = 4, ts_denominator = 4\<rparr>\<rparr>
   = Inr ''TheCrowing_01_BPM170_TimeSignature4-4_0s-228.706s_dur228.706s_Segment.synth''"
  by code_simp

text \<open>
  C1 at a segment whose \<open>time_signature\<close> key is absent: the encoder produces the
  filename of the docstring of \<open>parse_segment_filename\<close>, the pattern matches it with the
  optional groups 4 and 5 unset, and \<open>int(match.group(4))\<close> raises \<open>TypeError\<close>, so
  nothing is decoded.
\<close>

theorem parse_generated_without_time_signature:
  "generate_segment_filename ''TheCrowing.synth'' 0 10
     \<lparr>seg_start_ms = 0, seg_end_ms = 228706, seg_duration_ms = 228706, seg_bpm = 170,
      seg_tempo = None, seg_time_signature = TsMissing\<rparr>
   = Inr ''TheCrowing_01_BPM170_0s-228.706s_dur228.706s_Segment.synth''
   \<and> parse_segment_filename ''TheCrowing_01_BPM170_0s-228.706s_dur228.706s_Segment.synth''
       = Inl TypeError"
  by code_simp

subsection \<open>Materializing a segment\<close>













text \<open>
  C7 at a first segment of 5250 ms at BPM 120 in 4/4, that is 10.5 beats: the code
  computes \<open>ceil(floor(10.5) / 4) * 4 = 12\<close>, so \<open>end_beat\<close> is 12, one and a half beats
  past the end of the segment, where rounding the duration down to whole measures gives 8.
\<close>

theorem end_beat_rounds_up:
  "create_tempo_segment_with_audio True
     \<lparr>seg_start_ms = 0, seg_end_ms = 5250, seg_duration_ms = 5250, seg_bpm = 120,
      seg_tempo = Some 500000,
      seg_time_signature = TsDict \<lparr>ts_numerator = 4, ts_denominator = 4\<rparr>\<rparr>
   = Inr \<lparr>m_total_offset = 0, m_beats_per_measure = 4, m_note_value = 1, m_start_beat = 8,
          m_end_beat = 12\<rparr>
   \<and> second_to_beat ((5250 - 0) / 1000) 120 = 21 / 2
   \<and> end_beat_spec 120 4 0 5250 8 = 8"
  by code_simp

subsection \<open>Merging segments\<close>

lemma str_int_4: "str_int 4 = ''4''"
  by code_simp

lemma load_segments_sound:
  "load_segments segments = Inr segment_data \<Longrightarrow> x \<in> set segment_data
   \<Longrightarrow> \<exists>name. (name, snd x) \<in> set segments \<and> parse_segment_filename name = Inr (fst x)"
proof (induction segments arbitrary: segment_data)
  case Nil
  then show ?case by simp
next
  case (Cons a segments)
  obtain name f where a: "a = (name, f)" by (cases a)
  from Cons.prems(1) a obtain info rest where
    p: "parse_segment_filename name = Inr info" and l: "load_segments segments = Inr rest"
    and sd: "segment_data = (info, f) # rest"
    by (auto split: sum.splits)
  show ?case
  proof (cases "x = (info, f)")
    case True
    with p a show ?thesis by auto
  next
    case False
    with Cons.prems(2) sd have "x \<in> set rest" by simp
    from Cons.IH [OF l this] show ?thesis by auto
  qed
qed

lemma load_segments_total:
  "\<forall>x \<in> set segments. \<exists>info. parse_segment_filename (fst x) = Inr info
   \<Longrightarrow> load_segments segments
       = Inr (map (\<lambda>x. (projr (parse_segment_filename (fst x)), snd x)) segments)"
proof (induction segments)
  case Nil
  then show ?case by simp
next
  case (Cons a segments)
  obtain name f where a: "a = (name, f)" by (cases a)
  from Cons.prems a obtain info where p: "parse_segment_filename name = Inr info" by auto
  from Cons have "load_segments segments
       = Inr (map (\<lambda>x. (projr (parse_segment_filename (fst x)), snd x)) segments)" by simp
  with p a show ?case by simp
qed

lemma process_segment_Inr:
  assumes "process_segment b n x = Inr m"
  shows "ms_info m = fst x" and "ms_file m = snd x"
    and "ms_bookmark m = b (snd x) @ '' BPM || Time Signature ''
           @ str_int (ts_numerator (fi_time_signature (fst x))) @ ''/'' @ str_int 4"
  using assms by (auto simp: process_segment_def Let_def split: option.splits)

lemma process_segment_total:
  "n (fi_start_time (fst x)) (snd x) = Some ps \<Longrightarrow> \<exists>m. process_segment b n x = Inr m"
  by (simp add: process_segment_def Let_def)

lemma merge_loop_sound:
  "merge_loop b n data = Inr ms \<Longrightarrow> m \<in> set ms
   \<Longrightarrow> \<exists>x \<in> set data. process_segment b n x = Inr m"
proof (induction data arbitrary: ms)
  case Nil
  then show ?case by simp
next
  case (Cons x data)
  from Cons.prems(1) obtain m0 ms0 where
    p: "process_segment b n x = Inr m0" and l: "merge_loop b n data = Inr ms0"
    and ms: "ms = m0 # ms0"
    by (auto split: sum.splits)
  show ?case
  proof (cases "m = m0")
    case True
    with p show ?thesis by simp
  next
    case False
    with Cons.prems(2) ms have "m \<in> set ms0" by simp
    from Cons.IH [OF l this] show ?thesis by auto
  qed
qed

lemma merge_loop_total:
  "\<forall>x \<in> set data. \<exists>ps. n (fi_start_time (fst x)) (snd x) = Some ps
   \<Longrightarrow> \<exists>ms. merge_loop b n data = Inr ms \<and> map ms_info ms = map fst data
            \<and> map ms_file ms = map snd data"
proof (induction data)
  case Nil
  then show ?case by simp
next
  case (Cons x data)
  from Cons.prems obtain ps where "n (fi_start_time (fst x)) (snd x) = Some ps" by auto
  then obtain m where m: "process_segment b n x = Inr m"
    by (simp add: process_segment_def Let_def)
  from Cons obtain ms where ms: "merge_loop b n data = Inr ms" "map ms_info ms = map fst data"
    "map ms_file ms = map snd data" by auto
  from m ms process_segment_Inr(1,2) [OF m] show ?case by simp
qed

lemma sorted_same_mset: "sorted (xs :: rat list) \<Longrightarrow> sorted ys \<Longrightarrow> mset xs = mset ys \<Longrightarrow> xs = ys"
  using properties_for_sort [of ys xs] sorted_sort_id [of xs] by simp

lemma start_times_sorted:
  "map (\<lambda>x. fi_start_time (fst x))
     (sort_key (\<lambda>x. fi_start_time (fst x)) (data :: (filename_info \<times> 'a) list))
   = sort (map (\<lambda>x. fi_start_time (fst x)) data)"
proof -
  let ?key = "\<lambda>x :: filename_info \<times> 'a. fi_start_time (fst x)"
  have b: "sorted (map ?key (sort_key ?key data))"
    by (rule sorted_sort_key)
  have c: "mset (map ?key (sort_key ?key data)) = mset (sort (map ?key data))"
    by simp
  have d: "sorted (sort (map ?key data))" by simp
  show ?thesis
    by (rule sorted_same_mset [OF b d c])
qed

lemma merge_total:
  assumes "segments \<noteq> []"
    and "\<forall>x \<in> set segments. \<exists>info. parse_segment_filename (fst x) = Inr info"
    and "\<forall>x \<in> set segments.
           \<exists>ps. expert_positions (fi_start_time (projr (parse_segment_filename (fst x)))) (snd x)
                  = Some ps"
  shows "\<exists>merged. merge_synth_segments bpm_str expert_positions segments = Inr merged
           \<and> map (\<lambda>m. (ms_info m, ms_file m)) merged
               = sort_key (\<lambda>x. fi_start_time (fst x))
                   (map (\<lambda>x. (projr (parse_segment_filename (fst x)), snd x)) segments)"
proof -
  let ?data = "map (\<lambda>x. (projr (parse_segment_filename (fst x)), snd x)) segments"
  let ?sorted = "sort_key (\<lambda>x. fi_start_time (fst x)) ?data"
  have ne: "?sorted \<noteq> []"
  proof
    assume "?sorted = []"
    then have "length ?sorted = 0" by (simp only: list.size)
    then have "length segments = 0" by (simp only: length_sort length_map)
    with assms(1) show False by simp
  qed
  have "\<forall>x \<in> set ?sorted. \<exists>ps. expert_positions (fi_start_time (fst x)) (snd x) = Some ps"
    using assms(3) by auto
  from merge_loop_total [OF this, of bpm_str] obtain ms where
    ms: "merge_loop bpm_str expert_positions ?sorted = Inr ms"
    "map ms_info ms = map fst ?sorted" "map ms_file ms = map snd ?sorted"
    by blast
  have "map (\<lambda>m. (ms_info m, ms_file m)) ms = zip (map ms_info ms) (map ms_file ms)"
    by (induction ms) simp_all
  also have "\<dots> = zip (map fst ?sorted) (map snd ?sorted)"
    by (simp only: ms(2,3))
  also have "\<dots> = ?sorted"
    by (rule zip_map_fst_snd)
  finally have pairs: "map (\<lambda>m. (ms_info m, ms_file m)) ms = ?sorted" .
  have "merge_synth_segments bpm_str expert_positions segments = Inr ms"
    using assms(2) ne ms(1) by (simp add: merge_synth_segments_def load_segments_total Let_def)
  with pairs show ?thesis by blast
qed

text \<open>
  C8, as the code has it. For every non-empty list of segment files whose names all decode
  and which all have an Expert difficulty, the merger returns a result, merges exactly the
  decoded files, and merges them in ascending order of the start time decoded from each
  filename; any other listing order of the same files gives the same sequence of start
  times.
\<close>

theorem merge_in_start_time_order:
  assumes "segments \<noteq> []"
    and "\<forall>x \<in> set segments. \<exists>info. parse_segment_filename (fst x) = Inr info"
    and "\<forall>x \<in> set segments.
           \<exists>ps. expert_positions (fi_start_time (projr (parse_segment_filename (fst x)))) (snd x)
                  = Some ps"
    and "mset segments' = mset segments"
  shows "\<exists>merged merged'.
           merge_synth_segments bpm_str expert_positions segments = Inr merged
         \<and> merge_synth_segments bpm_str expert_positions segments' = Inr merged'
         \<and> sorted (map (\<lambda>m. fi_start_time (ms_info m)) merged)
         \<and> map (\<lambda>m. fi_start_time (ms_info m)) merged
             = sort (map (\<lambda>x. fi_start_time (projr (parse_segment_filename (fst x)))) segments)
         \<and> map (\<lambda>m. fi_start_time (ms_info m)) merged'
             = map (\<lambda>m. fi_start_time (ms_info m)) merged
         \<and> mset (map (\<lambda>m. (ms_info m, ms_file m)) merged)
             = mset (map (\<lambda>x. (projr (parse_segment_filename (fst x)), snd x)) segments)"
proof -
  let ?dec = "\<lambda>x :: string \<times> 'a. (projr (parse_segment_filename (fst x)), snd x)"
  let ?key = "\<lambda>x :: filename_info \<times> 'a. fi_start_time (fst x)"
  let ?st = "\<lambda>m :: 'a merged_segment. fi_start_time (ms_info m)"
  let ?pair = "\<lambda>m :: 'a merged_segment. (ms_info m, ms_file m)"
  from assms(4) have set_eq: "set segments' = set segments" by (rule mset_eq_setD)
  have ne: "segments' \<noteq> []"
  proof
    assume "segments' = []"
    with assms(4) have "mset segments = {#}" by simp
    with assms(1) show False by simp
  qed
  have dec': "\<forall>x \<in> set segments'. \<exists>info. parse_segment_filename (fst x) = Inr info"
    using assms(2) set_eq by simp
  have exp': "\<forall>x \<in> set segments'.
           \<exists>ps. expert_positions (fi_start_time (projr (parse_segment_filename (fst x)))) (snd x)
                  = Some ps"
    using assms(3) set_eq by simp
  from merge_total [OF assms(1,2,3), of bpm_str] obtain merged where
    m1: "merge_synth_segments bpm_str expert_positions segments = Inr merged"
    and p1: "map ?pair merged = sort_key ?key (map ?dec segments)" by blast
  from merge_total [OF ne dec' exp', of bpm_str] obtain merged' where
    m2: "merge_synth_segments bpm_str expert_positions segments' = Inr merged'"
    and p2: "map ?pair merged' = sort_key ?key (map ?dec segments')" by blast
  have st: "map ?st ms = map ?key (map ?pair ms)" for ms :: "'a merged_segment list"
    by simp
  have s1: "map ?st merged = sort (map ?key (map ?dec segments))"
    by (simp only: st p1 start_times_sorted)
  have s2: "map ?st merged' = sort (map ?key (map ?dec segments'))"
    by (simp only: st p2 start_times_sorted)
  have "mset (map ?key (map ?dec segments')) = image_mset ?key (image_mset ?dec (mset segments'))"
    by (simp only: mset_map)
  also have "\<dots> = image_mset ?key (image_mset ?dec (mset segments))"
    by (simp only: assms(4))
  also have "\<dots> = mset (map ?key (map ?dec segments))"
    by (simp only: mset_map)
  finally have ms_keys: "mset (map ?key (map ?dec segments')) = mset (map ?key (map ?dec segments))" .
  have eq: "sort (map ?key (map ?dec segments')) = sort (map ?key (map ?dec segments))"
  proof (rule properties_for_sort)
    show "mset (sort (map ?key (map ?dec segments))) = mset (map ?key (map ?dec segments'))"
      using ms_keys by simp
    show "sorted (sort (map ?key (map ?dec segments)))" by simp
  qed
  have srt: "sorted (map ?st merged)"
    by (simp only: s1 sorted_sort)
  have keys: "map ?key (map ?dec segments)
              = map (\<lambda>x. fi_start_time (projr (parse_segment_filename (fst x)))) segments"
    by simp
  have ms: "mset (map ?pair merged) = mset (map ?dec segments)"
    by (simp only: p1 mset_sort)
  have c4: "map ?st merged
             = sort (map (\<lambda>x. fi_start_time (projr (parse_segment_filename (fst x)))) segments)"
    by (simp only: s1 keys)
  have c5: "map ?st merged' = map ?st merged"
    by (simp only: s1 s2 eq)
  from m1 m2 srt c4 c5 ms show ?thesis by blast
qed

lemma parse_three:
  "parse_segment_filename ''Song_3_BPM120_TimeSignature4-4_10s-15s_dur5s_Segment.synth''
   = Inr \<lparr>fi_base_name = ''Song'', fi_segment_number = 3, fi_bpm = 120,
          fi_time_signature = \<lparr>ts_numerator = 4, ts_denominator = 4\<rparr>,
          fi_start_time = 10, fi_end_time = 15, fi_duration = 5, fi_file_extension = ''synth''\<rparr>"
  "parse_segment_filename ''Song_1_BPM120_TimeSignature4-4_0s-5s_dur5s_Segment.synth''
   = Inr \<lparr>fi_base_name = ''Song'', fi_segment_number = 1, fi_bpm = 120,
          fi_time_signature = \<lparr>ts_numerator = 4, ts_denominator = 4\<rparr>,
          fi_start_time = 0, fi_end_time = 5, fi_duration = 5, fi_file_extension = ''synth''\<rparr>"
  "parse_segment_filename ''Song_2_BPM120_TimeSignature4-4_5s-10s_dur5s_Segment.synth''
   = Inr \<lparr>fi_base_name = ''Song'', fi_segment_number = 2, fi_bpm = 120,
          fi_time_signature = \<lparr>ts_numerator = 4, ts_denominator = 4\<rparr>,
          fi_start_time = 5, fi_end_time = 10, fi_duration = 5, fi_file_extension = ''synth''\<rparr>"
  by code_simp+

theorem merge_in_start_time_order_witness:
  "[(''Song_3_BPM120_TimeSignature4-4_10s-15s_dur5s_Segment.synth'', ''c''),
    (''Song_1_BPM120_TimeSignature4-4_0s-5s_dur5s_Segment.synth'', ''a''),
    (''Song_2_BPM120_TimeSignature4-4_5s-10s_dur5s_Segment.synth'', ''b'')] \<noteq> []
   \<and> (\<exists>merged merged'.
         merge_synth_segments (\<lambda>f. ''120.0'') (\<lambda>s f. Some [s])
           [(''Song_3_BPM120_TimeSignature4-4_10s-15s_dur5s_Segment.synth'', ''c''),
            (''Song_1_BPM120_TimeSignature4-4_0s-5s_dur5s_Segment.synth'', ''a''),
            (''Song_2_BPM120_TimeSignature4-4_5s-10s_dur5s_Segment.synth'', ''b'')] = Inr merged
       \<and> merge_synth_segments (\<lambda>f. ''120.0'') (\<lambda>s f. Some [s])
           [(''Song_1_BPM120_TimeSignature4-4_0s-5s_dur5s_Segment.synth'', ''a''),
            (''Song_2_BPM120_TimeSignature4-4_5s-10s_dur5s_Segment.synth'', ''b''),
            (''Song_3_BPM120_TimeSignature4-4_10s-15s_dur5s_Segment.synth'', ''c'')] = Inr merged'
       \<and> map (\<lambda>m. fi_start_time (ms_info m)) merged = [0, 5, 10]
       \<and> map (\<lambda>m. fi_start_time (ms_info m)) merged' = [0, 5, 10])"
proof -
  let ?c = "(''Song_3_BPM120_TimeSignature4-4_10s-15s_dur5s_Segment.synth'', ''c'')"
  let ?a = "(''Song_1_BPM120_TimeSignature4-4_0s-5s_dur5s_Segment.synth'', ''a'')"
  let ?b = "(''Song_2_BPM120_TimeSignature4-4_5s-10s_dur5s_Segment.synth'', ''b'')"
  let ?n = "\<lambda>(s :: rat) (f :: string). Some [s]"
  have ne: "[?c, ?a, ?b] \<noteq> []" by simp
  have dec: "\<forall>x \<in> set [?c, ?a, ?b]. \<exists>info. parse_segment_filename (fst x) = Inr info"
    by (simp add: parse_three)
  have ex: "\<forall>x \<in> set [?c, ?a, ?b].
              \<exists>ps. ?n (fi_start_time (projr (parse_segment_filename (fst x)))) (snd x) = Some ps"
    by simp
  have perm: "mset [?a, ?b, ?c] = mset [?c, ?a, ?b]" by simp
  have srt: "sort (map (\<lambda>x. fi_start_time (projr (parse_segment_filename (fst x)))) [?c, ?a, ?b])
             = [0, 5, 10]"
    by (simp add: parse_three)
  from merge_in_start_time_order [OF ne dec ex perm, of "\<lambda>f. ''120.0''"]
  obtain merged merged' where
    h1: "merge_synth_segments (\<lambda>f. ''120.0'') ?n [?c, ?a, ?b] = Inr merged"
    and h2: "merge_synth_segments (\<lambda>f. ''120.0'') ?n [?a, ?b, ?c] = Inr merged'"
    and h3: "map (\<lambda>m. fi_start_time (ms_info m)) merged
       = sort (map (\<lambda>x. fi_start_time (projr (parse_segment_filename (fst x)))) [?c, ?a, ?b])"
    and h4: "map (\<lambda>m. fi_start_time (ms_info m)) merged'
       = map (\<lambda>m. fi_start_time (ms_info m)) merged"
    by blast
  have r1: "map (\<lambda>m. fi_start_time (ms_info m)) merged = [0, 5, 10]"
    by (simp only: h3 srt)
  have r2: "map (\<lambda>m. fi_start_time (ms_info m)) merged' = [0, 5, 10]"
    by (simp only: h4 r1)
  show ?thesis
  proof (intro conjI exI)
    show "[?c, ?a, ?b] \<noteq> []" by (rule ne)
    show "merge_synth_segments (\<lambda>f. ''120.0'') ?n [?c, ?a, ?b] = Inr merged"
      by (rule h1)
    show "merge_synth_segments (\<lambda>f. ''120.0'') ?n [?a, ?b, ?c] = Inr merged'"
      by (rule h2)
    show "map (\<lambda>m. fi_start_time (ms_info m)) merged = [0, 5, 10]" by (rule r1)
    show "map (\<lambda>m. fi_start_time (ms_info m)) merged' = [0, 5, 10]" by (rule r2)
  qed
qed

text \<open>
  C8, as stated, fails on the code: three decodable segment files, one of them without an
  Expert difficulty, are not merged at all; the subscript \<open>difficulties["Expert"]\<close> raises
  \<open>KeyError\<close>.
\<close>

theorem merge_without_expert_counterexample:
  "merge_synth_segments (\<lambda>f. ''120.0'') (\<lambda>s f. if f = ''b'' then None else Some [s])
     [(''Song_3_BPM120_TimeSignature4-4_10s-15s_dur5s_Segment.synth'', ''c''),
      (''Song_1_BPM120_TimeSignature4-4_0s-5s_dur5s_Segment.synth'', ''a''),
      (''Song_2_BPM120_TimeSignature4-4_5s-10s_dur5s_Segment.synth'', ''b'')]
   = Inl KeyError"
  by code_simp

text \<open>
  C10. Every bookmark set by the merger is the text of the segment file's BPM followed by
  \<open>BPM || Time Signature n/4\<close>, where \<open>n\<close> is the numerator decoded from the name of that
  file: the denominator of the filename is not used, and the label always shows 4.
\<close>

theorem bookmark_label:
  assumes "merge_synth_segments bpm_str note_positions segments = Inr merged"
    and "m \<in> set merged"
  shows "ms_bookmark m = bpm_str (ms_file m) @ '' BPM || Time Signature ''
                           @ str_int (ts_numerator (fi_time_signature (ms_info m))) @ ''/4''
         \<and> (\<exists>name. (name, ms_file m) \<in> set segments
                \<and> parse_segment_filename name = Inr (ms_info m))"
proof -
  from assms(1) obtain segment_data where
    l: "load_segments segments = Inr segment_data"
    and mg: "merge_loop bpm_str note_positions
               (sort_key (\<lambda>x. fi_start_time (fst x)) segment_data) = Inr merged"
    by (auto simp: merge_synth_segments_def Let_def split: sum.splits if_splits)
  from merge_loop_sound [OF mg assms(2)] obtain x where x: "x \<in> set segment_data"
    and m: "process_segment bpm_str note_positions x = Inr m" by auto
  note pm = process_segment_Inr [OF m]
  from load_segments_sound [OF l x] obtain name where
    "(name, snd x) \<in> set segments" "parse_segment_filename name = Inr (fst x)" by blast
  then have "\<exists>name. (name, ms_file m) \<in> set segments
                \<and> parse_segment_filename name = Inr (ms_info m)"
    using pm(1,2) by auto
  moreover have "ms_bookmark m = bpm_str (ms_file m) @ '' BPM || Time Signature ''
                           @ str_int (ts_numerator (fi_time_signature (ms_info m))) @ ''/4''"
    using pm by (simp add: str_int_4)
  ultimately show ?thesis by blast
qed

lemma six_eight_merged:
  "merge_synth_segments (\<lambda>f. ''90.0'') (\<lambda>s f. Some [])
     [(''Song_2_BPM90_TimeSignature6-8_5s-10s_dur5s_Segment.synth'', ())]
   = Inr [\<lparr>ms_info = \<lparr>fi_base_name = ''Song'', fi_segment_number = 2, fi_bpm = 90,
                       fi_time_signature = \<lparr>ts_numerator = 6, ts_denominator = 8\<rparr>,
                       fi_start_time = 5, fi_end_time = 10, fi_duration = 5,
                       fi_file_extension = ''synth''\<rparr>,
           ms_file = (), ms_first = 0,
           ms_bookmark = ''90.0 BPM || Time Signature 6/4''\<rparr>]"
  by code_simp

theorem bookmark_label_witness:
  "merge_synth_segments (\<lambda>f. ''90.0'') (\<lambda>s f. Some [])
     [(''Song_2_BPM90_TimeSignature6-8_5s-10s_dur5s_Segment.synth'', ())]
   = Inr [\<lparr>ms_info = \<lparr>fi_base_name = ''Song'', fi_segment_number = 2, fi_bpm = 90,
                       fi_time_signature = \<lparr>ts_numerator = 6, ts_denominator = 8\<rparr>,
                       fi_start_time = 5, fi_end_time = 10, fi_duration = 5,
                       fi_file_extension = ''synth''\<rparr>,
           ms_file = (), ms_first = 0,
           ms_bookmark = ''90.0 BPM || Time Signature 6/4''\<rparr>]
   \<and> ms_bookmark
        \<lparr>ms_info = \<lparr>fi_base_name = ''Song'', fi_segment_number = 2, fi_bpm = 90,
                       fi_time_signature = \<lparr>ts_numerator = 6, ts_denominator = 8\<rparr>,
                       fi_start_time = 5, fi_end_time = 10, fi_duration = 5,
                       fi_file_extension = ''synth''\<rparr>,
           ms_file = (), ms_first = 0,
           ms_bookmark = ''90.0 BPM || Time Signature 6/4''\<rparr>
       = ''90.0'' @ '' BPM || Time Signature '' @ str_int 6 @ ''/4''"
proof -
  let ?m = "\<lparr>ms_info = \<lparr>fi_base_name = ''Song'', fi_segment_number = 2, fi_bpm = 90,
                       fi_time_signature = \<lparr>ts_numerator = 6, ts_denominator = 8\<rparr>,
                       fi_start_time = 5, fi_end_time = 10, fi_duration = 5,
                       fi_file_extension = ''synth''\<rparr>,
           ms_file = (), ms_first = 0,
           ms_bookmark = ''90.0 BPM || Time Signature 6/4''\<rparr>"
  have mem: "?m \<in> set [?m]" by simp
  from bookmark_label [OF six_eight_merged mem]
  have "ms_bookmark ?m = ''90.0'' @ '' BPM || Time Signature ''
          @ str_int (ts_numerator (fi_time_signature (ms_info ?m))) @ ''/4''"
    by (rule conjunct1)
  then have "ms_bookmark ?m = ''90.0'' @ '' BPM || Time Signature '' @ str_int 6 @ ''/4''"
    by simp
  with six_eight_merged show ?thesis by (intro conjI)
qed

end
